theory Spec2Isabelle
  imports Complex_Main
begin

section \<open>Data model of the map component\<close>

text \<open>
  The AOI record of the \<^verbatim>\<open>Map\<close> component (\<^verbatim>\<open>type AOI = { id, mgrsCoordinate,
  dimensions, bounds, name, dateCreated, layer? }\<close>). JavaScript numbers are modelled as reals (exact
  arithmetic, no rounding); the one non-finite value the code can produce from finite
  inputs, \<^verbatim>\<open>0 / 0\<close>, is the constructor \<open>NaN\<close> of \<open>num\<close>. The optional Leaflet layer is
  an opaque handle. The field \<^verbatim>\<open>id\<close> is called \<open>aoi_id\<close>, since \<open>id\<close> is the identity
  function of HOL.
\<close>

datatype num = Num real | NaN

datatype error = TypeError | SyntaxError | SecurityError | Error string

record AOI =
  aoi_id :: string
  mgrsCoordinate :: string
  dimensions :: string
  bounds :: "(real \<times> real) list"
  name :: string
  dateCreated :: string
  layer :: "nat option"

text \<open>Leaflet's \<^verbatim>\<open>L.LatLng\<close>: an object with the fields \<^verbatim>\<open>lat\<close> and \<^verbatim>\<open>lng\<close>.\<close>

record LatLng =
  lat :: real
  lng :: real

text \<open>
  A GeoJSON Feature as the code reads it: \<^verbatim>\<open>feature.geometry\<close> (possibly null), its
  \<^verbatim>\<open>type\<close> and, for a Polygon, \<^verbatim>\<open>coordinates\<close> (a list of rings of positions; the code
  reads the components 0 and 1 of a position only), and \<^verbatim>\<open>feature.properties\<close>
  (possibly null) with the five properties the code reads (each possibly absent).
\<close>

datatype geometry = Polygon "(real \<times> real) list list" | OtherGeometry string

record properties =
  prop_id :: "string option"
  prop_name :: "string option"
  prop_mgrsCoordinate :: "string option"
  prop_dimensions :: "string option"
  prop_dateCreated :: "string option"

record feature =
  geometry :: "geometry option"
  properties :: "properties option"

text \<open>
  A parsed GeoJSON document (the object \<^verbatim>\<open>JSON.parse\<close> returns), with the members the
  code reads: \<^verbatim>\<open>type\<close>, \<^verbatim>\<open>features\<close>, and, where the document is itself passed on
  as a Feature, \<^verbatim>\<open>geometry\<close> and \<^verbatim>\<open>properties\<close>. An absent member is \<open>None\<close>.
\<close>

record geojson =
  doc_type :: "string option"
  doc_features :: "feature list option"
  doc_geometry :: "geometry option"
  doc_properties :: "properties option"

section \<open>Persistence: \<^verbatim>\<open>storage.load\<close>\<close>

text \<open>
  \<^verbatim>\<open>
  load: (): AOI[] => {
    if (typeof window !== 'undefined') {
      try {
        const data = localStorage.getItem(STORAGE_KEY);
        return data ? JSON.parse(data) : [];
      } catch (error) { console.error(...); return []; }
    }
    return [];
  }
  \<close>
  The environment is explicit: whether \<^verbatim>\<open>window\<close> exists, what
  \<^verbatim>\<open>localStorage.getItem\<close> does for the fixed key (it throws, or returns null, written
  \<open>None\<close>, or returns the stored string), and \<^verbatim>\<open>JSON.parse\<close> (a built-in: it throws a
  SyntaxError or returns the parsed value, here read at the type \<^verbatim>\<open>AOI[]\<close> as the code
  does).
\<close>

definition load_try :: "(error + string option) \<Rightarrow> (string \<Rightarrow> error + AOI list) \<Rightarrow> error + AOI list" where
  "load_try getItem JSON_parse =
     (case getItem of
        Inl e \<Rightarrow> Inl e
      | Inr None \<Rightarrow> Inr []
      | Inr (Some data) \<Rightarrow> (if data = [] then Inr [] else JSON_parse data))"

definition storage_load :: "bool \<Rightarrow> (error + string option) \<Rightarrow> (string \<Rightarrow> error + AOI list) \<Rightarrow> error + AOI list" where
  "storage_load hasWindow getItem JSON_parse =
     (if hasWindow
      then (case load_try getItem JSON_parse of Inl e \<Rightarrow> Inr [] | Inr v \<Rightarrow> Inr v)
      else Inr [])"

section \<open>GeoJSON interchange\<close>

text \<open>
  \<^verbatim>\<open>aoiToGeoJSON\<close>: one ring, each vertex the pair of \<^verbatim>\<open>coord[1]\<close> and \<^verbatim>\<open>coord[0]\<close>, and the five
  properties; the layer is not copied.
\<close>

definition swap_coord :: "real \<times> real \<Rightarrow> real \<times> real" where
  "swap_coord coord = (snd coord, fst coord)"

definition aoiToGeoJSON :: "AOI \<Rightarrow> feature" where
  "aoiToGeoJSON aoi =
     \<lparr> geometry = Some (Polygon [map swap_coord (bounds aoi)]),
       properties = Some \<lparr> prop_id = Some (aoi_id aoi),
                           prop_name = Some (name aoi),
                           prop_mgrsCoordinate = Some (mgrsCoordinate aoi),
                           prop_dimensions = Some (dimensions aoi),
                           prop_dateCreated = Some (dateCreated aoi) \<rparr> \<rparr>"

text \<open>
  \<^verbatim>\<open>feature.properties?.p || d\<close>: the property when it is present and truthy (for a
  string: not empty), the default otherwise.
\<close>

definition prop_or :: "properties option \<Rightarrow> (properties \<Rightarrow> string option) \<Rightarrow> string \<Rightarrow> string" where
  "prop_or ps sel d =
     (case ps of
        None \<Rightarrow> d
      | Some p \<Rightarrow> (case sel p of None \<Rightarrow> d | Some v \<Rightarrow> (if v = [] then d else v)))"

text \<open>
  \<^verbatim>\<open>geoJSONToAOI\<close>. \<open>uuid\<close> is what \<^verbatim>\<open>randomUUID()\<close> returns and \<open>now\<close> what
  \<^verbatim>\<open>new Date().toISOString()\<close> returns when this call evaluates them. Reading
  \<^verbatim>\<open>.type\<close> of a null geometry and \<^verbatim>\<open>.map\<close> of a missing first ring throw a TypeError.
\<close>

definition geoJSONToAOI :: "string \<Rightarrow> string \<Rightarrow> feature \<Rightarrow> error + AOI" where
  "geoJSONToAOI uuid now f =
     (case geometry f of
        None \<Rightarrow> Inl TypeError
      | Some (OtherGeometry t) \<Rightarrow> Inl (Error ''Only Polygon geometries are supported'')
      | Some (Polygon coordinates) \<Rightarrow>
          (case coordinates of
             [] \<Rightarrow> Inl TypeError
           | ring # _ \<Rightarrow>
               Inr \<lparr> aoi_id = prop_or (properties f) prop_id uuid,
                     mgrsCoordinate = prop_or (properties f) prop_mgrsCoordinate [],
                     dimensions = prop_or (properties f) prop_dimensions [],
                     bounds = map swap_coord ring,
                     name = prop_or (properties f) prop_name ''Imported AOI'',
                     dateCreated = prop_or (properties f) prop_dateCreated now,
                     layer = None \<rparr>))"

text \<open>
  \<^verbatim>\<open>features.map(geoJSONToAOI)\<close>: the features in order, stopping at the first one
  that throws. \<open>rnd k\<close> and \<open>clk k\<close> are what \<^verbatim>\<open>randomUUID()\<close> and
  \<^verbatim>\<open>new Date().toISOString()\<close> return during the call for the element at index \<open>k\<close>.
\<close>

fun map_geoJSONToAOI :: "(nat \<Rightarrow> string) \<Rightarrow> (nat \<Rightarrow> string) \<Rightarrow> nat \<Rightarrow> feature list \<Rightarrow> error + AOI list" where
  "map_geoJSONToAOI rnd clk k [] = Inr []"
| "map_geoJSONToAOI rnd clk k (f # fs) =
     (case geoJSONToAOI (rnd k) (clk k) f of
        Inl e \<Rightarrow> Inl e
      | Inr a \<Rightarrow> (case map_geoJSONToAOI rnd clk (Suc k) fs of
                   Inl e \<Rightarrow> Inl e
                 | Inr as \<Rightarrow> Inr (a # as)))"

text \<open>\<^verbatim>\<open>feature.geometry?.type === 'Polygon'\<close>, the filter of \<^verbatim>\<open>importGeoJSON\<close>.\<close>

definition isPolygon :: "feature \<Rightarrow> bool" where
  "isPolygon f = (case geometry f of Some (Polygon cs) \<Rightarrow> True | _ \<Rightarrow> False)"

text \<open>
  \<^verbatim>\<open>importGeoJSON\<close>, from the text of the file on (\<^verbatim>\<open>reader.onload\<close>): the result is
  the rejection of the promise (\<open>Inl\<close>) or the list handed to \<^verbatim>\<open>setAois\<close>.
  \<^verbatim>\<open>
  const geoJSONData = JSON.parse(fileContent);
  if (!geoJSONData.type) throw new Error('Invalid GeoJSON: Missing type property');
  const features = geoJSONData.type === 'FeatureCollection' ? geoJSONData.features
    : geoJSONData.type === 'Feature' ? [geoJSONData] : [];
  if (features.length === 0) throw new Error('No valid features found in GeoJSON');
  const importedAois = features
    .filter((feature) => feature.geometry?.type === 'Polygon').map(geoJSONToAOI);
  if (importedAois.length === 0) throw new Error('No Polygon features found in GeoJSON');
  setAois(importedAois); resolve();
  \<close>
\<close>

definition import_features :: "geojson \<Rightarrow> error + feature list" where
  "import_features geoJSONData =
     (if doc_type geoJSONData = Some ''FeatureCollection''
      then (case doc_features geoJSONData of None \<Rightarrow> Inl TypeError | Some fs \<Rightarrow> Inr fs)
      else if doc_type geoJSONData = Some ''Feature''
      then Inr [\<lparr> geometry = doc_geometry geoJSONData, properties = doc_properties geoJSONData \<rparr>]
      else Inr [])"

definition importGeoJSON :: "(string \<Rightarrow> error + geojson) \<Rightarrow> (nat \<Rightarrow> string) \<Rightarrow> (nat \<Rightarrow> string) \<Rightarrow> string \<Rightarrow> error + AOI list" where
  "importGeoJSON JSON_parse rnd clk fileContent =
     (case JSON_parse fileContent of
        Inl e \<Rightarrow> Inl e
      | Inr geoJSONData \<Rightarrow>
          if doc_type geoJSONData = None \<or> doc_type geoJSONData = Some []
          then Inl (Error ''Invalid GeoJSON: Missing type property'')
          else (case import_features geoJSONData of
                  Inl e \<Rightarrow> Inl e
                | Inr features \<Rightarrow>
                    if length features = 0
                    then Inl (Error ''No valid features found in GeoJSON'')
                    else (case map_geoJSONToAOI rnd clk 0 (filter isPolygon features) of
                            Inl e \<Rightarrow> Inl e
                          | Inr importedAois \<Rightarrow>
                              if length importedAois = 0
                              then Inl (Error ''No Polygon features found in GeoJSON'')
                              else Inr importedAois)))"

section \<open>The state of the \<^verbatim>\<open>Map\<close> component and its handlers\<close>

text \<open>
  The React state the handlers read and write: \<^verbatim>\<open>aois\<close>, \<^verbatim>\<open>mgrsInput\<close>,
  \<^verbatim>\<open>editingId\<close>, \<^verbatim>\<open>editingName\<close>, \<^verbatim>\<open>selectedAoiId\<close>, \<^verbatim>\<open>isEditing\<close>, and
  \<^verbatim>\<open>editMode\<close> of \<^verbatim>\<open>MapContent\<close>. \<open>alerts\<close> records the messages shown with
  \<^verbatim>\<open>alert\<close>. A handler is a function from the state in which it runs to the state
  after it; a handler from which an exception escapes returns \<open>Inl\<close> and leaves the
  state as it was.
\<close>

record state =
  aois :: "AOI list"
  mgrsInput :: string
  editingId :: "string option"
  editingName :: string
  selectedAoiId :: "string option"
  isEditing :: bool
  editMode :: bool
  alerts :: "string list"

text \<open>
  \<^verbatim>\<open>handleImport\<close> (the Import button of the modal runs the same statements).
  \<open>importFile\<close> is the text of the chosen file, \<open>None\<close> when no file was chosen.
  \<^verbatim>\<open>
  try {
    const geojson = JSON.parse(e.target?.result as string);
    const newAois = geojson.features.map((feature: any) => geoJSONToAOI(feature));
    setAois([...aois, ...newAois]);
  } catch (error) { console.error(...); alert('Invalid GeoJSON file'); }
  \<close>
\<close>

definition handleImport_try :: "(string \<Rightarrow> error + geojson) \<Rightarrow> (nat \<Rightarrow> string) \<Rightarrow> (nat \<Rightarrow> string) \<Rightarrow> string \<Rightarrow> error + AOI list" where
  "handleImport_try JSON_parse rnd clk fileContent =
     (case JSON_parse fileContent of
        Inl e \<Rightarrow> Inl e
      | Inr geojson \<Rightarrow>
          (case doc_features geojson of
             None \<Rightarrow> Inl TypeError
           | Some fs \<Rightarrow> map_geoJSONToAOI rnd clk 0 fs))"

definition handleImport :: "(string \<Rightarrow> error + geojson) \<Rightarrow> (nat \<Rightarrow> string) \<Rightarrow> (nat \<Rightarrow> string) \<Rightarrow> string option \<Rightarrow> state \<Rightarrow> state" where
  "handleImport JSON_parse rnd clk importFile s =
     (case importFile of
        None \<Rightarrow> s
      | Some fileContent \<Rightarrow>
          (case handleImport_try JSON_parse rnd clk fileContent of
             Inl e \<Rightarrow> s\<lparr>alerts := alerts s @ [''Invalid GeoJSON file'']\<rparr>
           | Inr newAois \<Rightarrow> s\<lparr>aois := aois s @ newAois\<rparr>))"

text \<open>
  \<^verbatim>\<open>String.prototype.trim\<close>. A \<open>string\<close> holds the bytes of the UTF-8 encoding of the
  JavaScript string, so a character outside ASCII is a sequence of two or three bytes.
  \<open>whiteSpaceCodes\<close> lists the encodings of the characters that \<^verbatim>\<open>trim\<close> removes, the
  WhiteSpace and LineTerminator characters of ECMAScript: U+0009, U+000A, U+000B,
  U+000C, U+000D, U+0020, U+00A0, U+1680, U+2000 to U+200A, U+2028, U+2029, U+202F,
  U+205F, U+3000 and U+FEFF.
\<close>

definition whiteSpaceCodes :: "string list" where
  "whiteSpaceCodes =
     [CHR 0x09] # [CHR 0x0A] # [CHR 0x0B] # [CHR 0x0C] # [CHR 0x0D] # [CHR 0x20]
     # [CHR 0xC2, CHR 0xA0]
     # [CHR 0xE1, CHR 0x9A, CHR 0x80]
     # [CHR 0xE2, CHR 0x80, CHR 0x80] # [CHR 0xE2, CHR 0x80, CHR 0x81]
     # [CHR 0xE2, CHR 0x80, CHR 0x82] # [CHR 0xE2, CHR 0x80, CHR 0x83]
     # [CHR 0xE2, CHR 0x80, CHR 0x84] # [CHR 0xE2, CHR 0x80, CHR 0x85]
     # [CHR 0xE2, CHR 0x80, CHR 0x86] # [CHR 0xE2, CHR 0x80, CHR 0x87]
     # [CHR 0xE2, CHR 0x80, CHR 0x88] # [CHR 0xE2, CHR 0x80, CHR 0x89]
     # [CHR 0xE2, CHR 0x80, CHR 0x8A]
     # [CHR 0xE2, CHR 0x80, CHR 0xA8] # [CHR 0xE2, CHR 0x80, CHR 0xA9]
     # [CHR 0xE2, CHR 0x80, CHR 0xAF]
     # [CHR 0xE2, CHR 0x81, CHR 0x9F]
     # [CHR 0xE3, CHR 0x80, CHR 0x80]
     # [CHR 0xEF, CHR 0xBB, CHR 0xBF]
     # []"

text \<open>
  The number of bytes of the code with which \<open>str\<close> starts, 0 when it starts with
  none of the codes.
\<close>

definition leadingCode :: "string list \<Rightarrow> string \<Rightarrow> nat" where
  "leadingCode codes str =
     (case find (\<lambda>w. w \<noteq> [] \<and> take (length w) str = w) codes of
        None \<Rightarrow> 0
      | Some w \<Rightarrow> length w)"

text \<open>Removing codes from the start of \<open>str\<close> for as long as it starts with one.\<close>

function stripLeading :: "string list \<Rightarrow> string \<Rightarrow> string" where
  "stripLeading codes str =
     (if leadingCode codes str = 0 then str
      else stripLeading codes (drop (leadingCode codes str) str))"
  by pat_completeness auto
termination
proof (relation "measure (\<lambda>(codes, str). length str)")
  show "wf (measure (\<lambda>(codes, str). length str))" by simp
next
  fix codes :: "string list" and str :: string
  assume n: "leadingCode codes str \<noteq> 0"
  then obtain w where "find (\<lambda>w. w \<noteq> [] \<and> take (length w) str = w) codes = Some w"
    by (auto simp: leadingCode_def split: option.splits)
  then have "w \<noteq> []" "take (length w) str = w"
    by (auto simp: find_Some_iff)
  then have "str \<noteq> []" by auto
  with n show "((codes, drop (leadingCode codes str) str), (codes, str))
                 \<in> measure (\<lambda>(codes, str). length str)"
    by simp
qed

declare stripLeading.simps [simp del]

text \<open>
  \<^verbatim>\<open>trim\<close> removes the white space from the start and, reading the string and the
  codes backwards, from the end.
\<close>

definition trim :: "string \<Rightarrow> string" where
  "trim str =
     rev (stripLeading (map rev whiteSpaceCodes) (rev (stripLeading whiteSpaceCodes str)))"

text \<open>
  \<^verbatim>\<open>
  const saveEdit = () => {
    if (!editingId) return;
    setAois(aois.map(aoi =>
      aoi.id === editingId ? { ...aoi, name: editingName.trim() || aoi.name } : aoi));
    setEditingId(null);
    setEditingName('');
  };
  \<close>
\<close>

definition saveEdit :: "state \<Rightarrow> state" where
  "saveEdit s =
     (case editingId s of
        None \<Rightarrow> s
      | Some eid \<Rightarrow>
          if eid = [] then s
          else s\<lparr> aois := map (\<lambda>aoi. if aoi_id aoi = eid
                                      then aoi\<lparr>name := (if trim (editingName s) = []
                                                         then name aoi
                                                         else trim (editingName s))\<rparr>
                                      else aoi) (aois s),
                  editingId := None,
                  editingName := [] \<rparr>)"



text \<open>
  \<^verbatim>\<open>deleteAOI\<close> and the handler of the delete-all button. \<open>confirmed\<close> is the answer
  to \<^verbatim>\<open>window.confirm\<close>. (Removing the layer from the map is an effect on the map
  widget, which is not part of this state.)
  \<^verbatim>\<open>
  if (window.confirm(...)) { ...; setAois(aois.filter(aoi => aoi.id !== id)); }
  if (window.confirm(...)) { setAois([]); }
  \<close>
\<close>

definition deleteAOI :: "bool \<Rightarrow> string \<Rightarrow> state \<Rightarrow> state" where
  "deleteAOI confirmed i s =
     (if confirmed then s\<lparr>aois := filter (\<lambda>aoi. aoi_id aoi \<noteq> i) (aois s)\<rparr> else s)"

definition deleteAll :: "bool \<Rightarrow> state \<Rightarrow> state" where
  "deleteAll confirmed s = (if confirmed then s\<lparr>aois := []\<rparr> else s)"

text \<open>
  The AOIs drawn and listed as selected: the test \<^verbatim>\<open>aoi.id === selectedAoiId\<close> of the
  polygon styles and of the panel entries.
\<close>

definition selectedAois :: "state \<Rightarrow> AOI list" where
  "selectedAois s = filter (\<lambda>aoi. Some (aoi_id aoi) = selectedAoiId s) (aois s)"

text \<open>\<^verbatim>\<open>Number.prototype.toString\<close> of a natural number: its decimal digits.\<close>

definition digit :: "nat \<Rightarrow> char" where
  "digit d = char_of (48 + d)"

fun toString_nat :: "nat \<Rightarrow> string" where
  "toString_nat n =
     (if n < 10 then [digit n] else toString_nat (n div 10) @ [digit (n mod 10)])"

declare toString_nat.simps [simp del]

text \<open>
  \<^verbatim>\<open>addAOI\<close>. \<open>toPoint\<close> is \<^verbatim>\<open>mgrs.toPoint\<close> of the MGRS library (it throws or returns
  \<^verbatim>\<open>[longitude, latitude]\<close>), \<open>nowMs\<close> is \<^verbatim>\<open>Date.now()\<close> and \<open>nowIso\<close> is
  \<^verbatim>\<open>new Date().toISOString()\<close>.
  \<^verbatim>\<open>
  if (!mgrsInput) return;
  try {
    const [lng, lat] = mgrs.toPoint(mgrsInput);
    const bounds = [ [lat - 0.01, lng - 0.01], [lat - 0.01, lng + 0.01],
                    [lat + 0.01, lng + 0.01], [lat + 0.01, lng - 0.01] ];
    const newAOI = { id: Date.now().toString(), mgrsCoordinate: mgrsInput, dimensions: '',
      bounds: bounds, name: `AOI ${aois.length + 1}`, dateCreated: new Date().toISOString() };
    setAois([...aois, newAOI]);
    setMgrsInput('');
  } catch (error) { alert('Invalid MGRS coordinate'); }
  \<close>
\<close>

definition addAOI :: "(string \<Rightarrow> error + real \<times> real) \<Rightarrow> nat \<Rightarrow> string \<Rightarrow> state \<Rightarrow> state" where
  "addAOI toPoint nowMs nowIso s =
     (if mgrsInput s = [] then s
      else (case toPoint (mgrsInput s) of
              Inl e \<Rightarrow> s\<lparr>alerts := alerts s @ [''Invalid MGRS coordinate'']\<rparr>
            | Inr (lng', lat') \<Rightarrow>
                s\<lparr> aois := aois s @
                       [\<lparr> aoi_id = toString_nat nowMs,
                          mgrsCoordinate = mgrsInput s,
                          dimensions = [],
                          bounds = [(lat' - 0.01, lng' - 0.01), (lat' - 0.01, lng' + 0.01),
                                    (lat' + 0.01, lng' + 0.01), (lat' + 0.01, lng' - 0.01)],
                          name = ''AOI '' @ toString_nat (length (aois s) + 1),
                          dateCreated = nowIso,
                          layer = None \<rparr>],
                   mgrsInput := [] \<rparr>))"

section \<open>Creating an AOI from a finished draw gesture\<close>

text \<open>
  Modelled from the spec: \<^verbatim>\<open>calculatePolygonArea\<close>, which \<^verbatim>\<open>handleCreated\<close> calls and
  the sources at hand do not define. The spec (4.2, \<^verbatim>\<open>planarArea\<close>): "computes signed
  polygon area via the shoelace formula treating lat/lon degrees as if locally planar
  after a meters-per-degree scale correction at the polygon's mean latitude; returns
  absolute value". The spec gives no number for the metres in a degree, which is the
  parameter \<open>mPerDeg\<close>: a degree of latitude is \<open>mPerDeg\<close> metres and a degree of
  longitude is \<open>mPerDeg * cos meanLat\<close> metres.
\<close>

text \<open>
  Modelled from the spec: the shoelace sum of the cross products of consecutive points,
  the last point closing the ring with the first one, \<open>p0\<close>.
\<close>

fun shoelace_sum :: "real \<times> real \<Rightarrow> (real \<times> real) list \<Rightarrow> real" where
  "shoelace_sum p0 [] = 0"
| "shoelace_sum p0 [p] = fst p * snd p0 - fst p0 * snd p"
| "shoelace_sum p0 (p # q # ps) = (fst p * snd q - fst q * snd p) + shoelace_sum p0 (q # ps)"

text \<open>Modelled from the spec: the signed area, half the shoelace sum.\<close>

definition shoelace :: "(real \<times> real) list \<Rightarrow> real" where
  "shoelace ps = (case ps of [] \<Rightarrow> 0 | p0 # _ \<Rightarrow> shoelace_sum p0 ps / 2)"

text \<open>Modelled from the spec: the polygon's mean latitude, in degrees.\<close>

definition meanLat :: "LatLng list \<Rightarrow> real" where
  "meanLat vertices = sum_list (map lat vertices) / real (length vertices)"

text \<open>
  Modelled from the spec: the absolute value of the signed area of the vertices scaled
  to metres.
\<close>

definition calculatePolygonArea :: "real \<Rightarrow> LatLng list \<Rightarrow> real" where
  "calculatePolygonArea mPerDeg vertices =
     \<bar>shoelace (map (\<lambda>v. (lng v * (mPerDeg * cos (meanLat vertices * pi / 180)),
                            lat v * mPerDeg)) vertices)\<bar>"

text \<open>
  \<^verbatim>\<open>latLngs.reduce((sum, latlng) => sum + latlng.lat, 0) / latLngs.length\<close>: for the
  empty list this is \<^verbatim>\<open>0 / 0\<close>.
\<close>

definition center :: "(LatLng \<Rightarrow> real) \<Rightarrow> LatLng list \<Rightarrow> num" where
  "center coord latLngs =
     (if length latLngs = 0 then NaN
      else Num (foldl (\<lambda>sum latlng. sum + coord latlng) 0 latLngs / real (length latLngs)))"

text \<open>
  \<^verbatim>\<open>latLngs.map(latlng => mgrs.forward(latlng.lat, latlng.lng))\<close>, where \<open>forward\<close> is
  \<^verbatim>\<open>mgrs.forward\<close> of the MGRS library, which returns the grid string or throws.
\<close>

fun map_forward :: "(num \<Rightarrow> num \<Rightarrow> error + string) \<Rightarrow> LatLng list \<Rightarrow> error + string list" where
  "map_forward forward [] = Inr []"
| "map_forward forward (latlng # rest) =
     (case forward (Num (lat latlng)) (Num (lng latlng)) of
        Inl e \<Rightarrow> Inl e
      | Inr m \<Rightarrow> (case map_forward forward rest of
                   Inl e \<Rightarrow> Inl e
                 | Inr ms \<Rightarrow> Inr (m # ms)))"

text \<open>
  \<^verbatim>\<open>handleCreated\<close>. \<open>toFixed\<close> is \<^verbatim>\<open>Number.prototype.toFixed\<close>, \<open>uuid\<close> is
  \<^verbatim>\<open>randomUUID()\<close>, \<open>now\<close> is \<^verbatim>\<open>new Date().toISOString()\<close>, and the event carries the
  layer and its vertices \<^verbatim>\<open>layer.getLatLngs()[0]\<close>.
  \<^verbatim>\<open>
  const mgrsCoords = latLngs.map(latlng => mgrs.forward(latlng.lat, latlng.lng));
  const centerLat = latLngs.reduce((sum, latlng) => sum + latlng.lat, 0) / latLngs.length;
  const centerLng = latLngs.reduce((sum, latlng) => sum + latlng.lng, 0) / latLngs.length;
  const centerMgrs = mgrs.forward(centerLat, centerLng);
  const newAoi = { id: randomUUID(), name: `AOI ${aois.length + 1}`,
    mgrsCoordinate: centerMgrs,
    dimensions: `${calculatePolygonArea(latLngs).toFixed(2)} sq m`,
    bounds: latLngs.map(latlng => [latlng.lng, latlng.lat]),
    dateCreated: new Date().toISOString(), layer: layer };
  const updatedAois = [...aois, newAoi];
  setAois(updatedAois);
  \<close>
\<close>

definition handleCreated ::
  "(num \<Rightarrow> num \<Rightarrow> error + string) \<Rightarrow> (real \<Rightarrow> nat \<Rightarrow> string) \<Rightarrow> real \<Rightarrow> string \<Rightarrow> string
     \<Rightarrow> nat \<Rightarrow> LatLng list \<Rightarrow> state \<Rightarrow> error + state" where
  "handleCreated forward toFixed mPerDeg uuid now layer' latLngs s =
     (case map_forward forward latLngs of
        Inl e \<Rightarrow> Inl e
      | Inr mgrsCoords \<Rightarrow>
          (case forward (center lat latLngs) (center lng latLngs) of
             Inl e \<Rightarrow> Inl e
           | Inr centerMgrs \<Rightarrow>
               Inr (s\<lparr> aois := aois s @
                       [\<lparr> aoi_id = uuid,
                          mgrsCoordinate = centerMgrs,
                          dimensions = toFixed (calculatePolygonArea mPerDeg latLngs) 2 @ '' sq m'',
                          bounds = map (\<lambda>latlng. (lng latlng, lat latlng)) latLngs,
                          name = ''AOI '' @ toString_nat (length (aois s) + 1),
                          dateCreated = now,
                          layer = Some layer' \<rparr>] \<rparr>)))"

text \<open>
  The other handlers that the properties below run: typing into the MGRS input
  (\<^verbatim>\<open>onChange={(e) => setMgrsInput(e.target.value)}\<close>), \<^verbatim>\<open>startEditing\<close>, typing into
  the name input (\<^verbatim>\<open>setEditingName(e.target.value)\<close>), and the click on an entry of the
  panel (\<^verbatim>\<open>setSelectedAoiId(selectedAoiId === aoi.id ? null : aoi.id)\<close>).
\<close>

definition setMgrsInput :: "string \<Rightarrow> state \<Rightarrow> state" where
  "setMgrsInput v s = s\<lparr>mgrsInput := v\<rparr>"

definition startEditing :: "AOI \<Rightarrow> state \<Rightarrow> state" where
  "startEditing aoi s = s\<lparr>editingId := Some (aoi_id aoi), editingName := name aoi\<rparr>"

definition setEditingName :: "string \<Rightarrow> state \<Rightarrow> state" where
  "setEditingName v s = s\<lparr>editingName := v\<rparr>"

definition panelClick :: "AOI \<Rightarrow> state \<Rightarrow> state" where
  "panelClick aoi s =
     s\<lparr>selectedAoiId := (if selectedAoiId s = Some (aoi_id aoi) then None else Some (aoi_id aoi))\<rparr>"

text \<open>The state after the first render: the initial values of the \<^verbatim>\<open>useState\<close> calls.\<close>

definition initial_state :: state where
  "initial_state =
     \<lparr> aois = [], mgrsInput = [], editingId = None, editingName = [],
       selectedAoiId = None, isEditing = False, editMode = False, alerts = [] \<rparr>"

section \<open>Concrete inputs\<close>

text \<open>
  The rectangle of the spec's scenario, two AOIs, the features of the spec's import
  scenario, and stand-ins for the MGRS library that answer with a fixed grid string and
  a fixed point.
\<close>

definition rectangle :: "LatLng list" where
  "rectangle = [\<lparr>lat = 45, lng = -100\<rparr>, \<lparr>lat = 45, lng = -99\<rparr>,
                \<lparr>lat = 46, lng = -99\<rparr>, \<lparr>lat = 46, lng = -100\<rparr>]"

definition stub_forward :: "num \<Rightarrow> num \<Rightarrow> error + string" where
  "stub_forward la lo =
     (case (la, lo) of (Num x, Num y) \<Rightarrow> Inr ''14TMK'' | _ \<Rightarrow> Inl (Error ''invalid''))"

definition stub_toPoint :: "string \<Rightarrow> error + real \<times> real" where
  "stub_toPoint m = (if m = ''14TMK'' then Inr (-99.5, 45.5) else Inl (Error ''invalid''))"

definition example_aoi :: AOI where
  "example_aoi =
     \<lparr> aoi_id = ''a1'', mgrsCoordinate = ''14TMK'', dimensions = ''1.00 sq m'',
       bounds = [(45, -100), (45, -99), (46, -99), (46, -100)],
       name = ''AOI 1'', dateCreated = ''2024-06-01T00:00:00.000Z'', layer = Some 7 \<rparr>"

definition second_aoi :: AOI where
  "second_aoi = example_aoi\<lparr>aoi_id := ''b2'', name := ''AOI 2''\<rparr>"

definition unnamed_aoi :: AOI where
  "unnamed_aoi = example_aoi\<lparr>name := []\<rparr>"

definition selected_state :: state where
  "selected_state = initial_state\<lparr>aois := [example_aoi, second_aoi], selectedAoiId := Some ''a1''\<rparr>"

definition no_properties :: properties where
  "no_properties =
     \<lparr> prop_id = None, prop_name = None, prop_mgrsCoordinate = None,
       prop_dimensions = None, prop_dateCreated = None \<rparr>"

definition scenario_ring :: "(real \<times> real) list" where
  "scenario_ring = [(-99, 45), (-99, 46), (-98, 46), (-98, 45), (-99, 45)]"

definition polygon_feature :: feature where
  "polygon_feature =
     \<lparr> geometry = Some (Polygon (scenario_ring # [])), properties = Some no_properties \<rparr>"

definition point_feature :: feature where
  "point_feature = \<lparr> geometry = Some (OtherGeometry ''Point''), properties = Some no_properties \<rparr>"

definition mixed_collection :: geojson where
  "mixed_collection =
     \<lparr> doc_type = Some ''FeatureCollection'',
       doc_features = Some [polygon_feature, point_feature],
       doc_geometry = None, doc_properties = None \<rparr>"

definition blank_properties :: properties where
  "blank_properties =
     \<lparr> prop_id = Some [], prop_name = Some [], prop_mgrsCoordinate = None,
       prop_dimensions = None, prop_dateCreated = Some [] \<rparr>"

definition blank_feature :: feature where
  "blank_feature =
     \<lparr> geometry = Some (Polygon (scenario_ring # [])), properties = Some blank_properties \<rparr>"

text \<open>
  The collection that an export of \<open>example_aoi\<close> holds
  (\<^verbatim>\<open>features: aois.map(aoi => aoiToGeoJSON(aoi))\<close>).
\<close>

definition exported_collection :: geojson where
  "exported_collection =
     \<lparr> doc_type = Some ''FeatureCollection'',
       doc_features = Some [aoiToGeoJSON example_aoi],
       doc_geometry = None, doc_properties = None \<rparr>"

text \<open>
  The state after this session: the exported collection is imported, the imported AOI
  is renamed to "West", and the same collection is imported again. The collection then
  holds two AOIs with the id of \<open>example_aoi\<close>, named "West" and "AOI 1".
\<close>

definition imported_state :: state where
  "imported_state =
     handleImport (\<lambda>c. Inr exported_collection) (\<lambda>k. ''u'') (\<lambda>k. ''t'') (Some ''file'')
       initial_state"

definition reimported_state :: state where
  "reimported_state =
     handleImport (\<lambda>c. Inr exported_collection) (\<lambda>k. ''u'') (\<lambda>k. ''t'') (Some ''file'')
       (saveEdit (setEditingName ''West'' (startEditing (aois imported_state ! 0) imported_state)))"

text \<open>A Polygon feature whose \<^verbatim>\<open>coordinates\<close> has a first ring.\<close>

definition hasRing :: "feature \<Rightarrow> bool" where
  "hasRing f = (case geometry f of Some (Polygon []) \<Rightarrow> False | _ \<Rightarrow> True)"

section \<open>Creation from a draw gesture (C1)\<close>

lemma foldl_plus_sum_list:
  fixes f :: "'a \<Rightarrow> real"
  shows "foldl (\<lambda>sum x. sum + f x) acc xs = acc + sum_list (map f xs)"
  by (induction xs arbitrary: acc) (simp_all add: add.assoc)

lemma center_mean:
  "latLngs \<noteq> [] \<Longrightarrow>
   center coord latLngs = Num (sum_list (map coord latLngs) / real (length latLngs))"
  by (simp add: center_def foldl_plus_sum_list)

lemma handleCreated_appends:
  assumes "latLngs \<noteq> []"
    and "map_forward forward latLngs = Inr ms"
    and "forward (Num (sum_list (map lat latLngs) / real (length latLngs)))
                 (Num (sum_list (map lng latLngs) / real (length latLngs))) = Inr c"
  shows "handleCreated forward toFixed k uuid now l latLngs s =
     Inr (s\<lparr> aois := aois s @
            [\<lparr> aoi_id = uuid, mgrsCoordinate = c,
               dimensions = toFixed (calculatePolygonArea k latLngs) 2 @ '' sq m'',
               bounds = map (\<lambda>latlng. (lng latlng, lat latlng)) latLngs,
               name = ''AOI '' @ toString_nat (length (aois s) + 1),
               dateCreated = now, layer = Some l \<rparr>] \<rparr>)"
  using assms by (simp add: handleCreated_def center_mean)

lemma handleCreated_created:
  assumes "handleCreated forward toFixed k uuid now l latLngs s = Inr s'"
    and "latLngs \<noteq> []"
  shows "forward (Num (sum_list (map lat latLngs) / real (length latLngs)))
                 (Num (sum_list (map lng latLngs) / real (length latLngs)))
           = Inr (mgrsCoordinate (last (aois s')))"
  using assms by (auto simp: handleCreated_def center_mean split: sum.splits)

lemma meanLat_rectangle: "meanLat rectangle = 91 / 2"
  by (simp add: meanLat_def rectangle_def)

lemma cos_mean_latitude:
  "1 / 2 < cos (91 / 2 * pi / 180)" "cos (91 / 2 * pi / 180) \<le> 1"
proof -
  have "cos (pi / 3) < cos (91 / 2 * pi / 180)"
    by (rule cos_monotone_0_pi) (use pi_gt_zero in simp_all)
  then show "1 / 2 < cos (91 / 2 * pi / 180)" by (simp add: cos_60)
  show "cos (91 / 2 * pi / 180) \<le> 1" by simp
qed

lemma area_rectangle: "calculatePolygonArea k rectangle = k * k * cos (91 / 2 * pi / 180)"
proof -
  have c: "0 \<le> cos (91 / 2 * pi / 180)"
    using cos_mean_latitude(1) by simp
  have "calculatePolygonArea k rectangle = \<bar>k * k * cos (91 / 2 * pi / 180)\<bar>"
    unfolding calculatePolygonArea_def meanLat_rectangle
    by (simp add: rectangle_def shoelace_def algebra_simps)
  also have "\<dots> = k * k * cos (91 / 2 * pi / 180)"
    using c by (simp add: abs_mult)
  finally show ?thesis .
qed

lemma area_magnitude:
  assumes "110000 \<le> k" "k \<le> 112000"
  shows "5 * 10 ^ 9 < calculatePolygonArea k rectangle"
    and "calculatePolygonArea k rectangle < 2 * 10 ^ 10"
proof -
  let ?c = "cos (91 / 2 * pi / 180)"
  have lo: "110000 * 110000 \<le> k * k" using assms by (intro mult_mono) simp_all
  have hi: "k * k \<le> 112000 * 112000" using assms by (intro mult_mono) simp_all
  have "5 * 10 ^ 9 < (110000 * 110000) * (1 / 2 :: real)" by simp
  also have "\<dots> < (110000 * 110000) * ?c" using cos_mean_latitude(1) by simp
  also have "\<dots> \<le> (k * k) * ?c" using lo cos_mean_latitude(1) by (intro mult_right_mono) simp_all
  finally show "5 * 10 ^ 9 < calculatePolygonArea k rectangle" by (simp add: area_rectangle)
  have "(k * k) * ?c \<le> (k * k) * 1" using cos_mean_latitude(2) by (intro mult_left_mono) simp_all
  also have "\<dots> \<le> 112000 * 112000" using hi by simp
  also have "\<dots> < (2 * 10 ^ 10 :: real)" by simp
  finally show "calculatePolygonArea k rectangle < 2 * 10 ^ 10" by (simp add: area_rectangle)
qed

text \<open>
  C1. Whenever \<^verbatim>\<open>handleCreated\<close> creates an AOI from the vertices of a finished draw
  gesture, the stored \<open>mgrsCoordinate\<close> is \<^verbatim>\<open>mgrs.forward\<close> of the mean of the vertex
  latitudes and the mean of the vertex longitudes; and it does create one (appended to
  the collection, with the dimensions string made from the area) whenever
  \<^verbatim>\<open>mgrs.forward\<close> answers for every vertex and for the mean. For the rectangle
  (45,-100), (45,-99), (46,-99), (46,-100) the stored coordinate is
  \<^verbatim>\<open>mgrs.forward(45.5, -99.5)\<close>, and the area in the dimensions string lies between
  \<open>5 * 10^9\<close> and \<open>2 * 10^10\<close> square metres when a degree is between 110 and 112 km.
\<close>

theorem handleCreated_centroid:
  "(handleCreated forward toFixed k uuid now l latLngs s = Inr s' \<and> latLngs \<noteq> []
    \<longrightarrow> forward (Num (sum_list (map lat latLngs) / real (length latLngs)))
                (Num (sum_list (map lng latLngs) / real (length latLngs)))
          = Inr (mgrsCoordinate (last (aois s'))))
   \<and> (latLngs \<noteq> [] \<and> map_forward forward latLngs = Inr ms
      \<and> forward (Num (sum_list (map lat latLngs) / real (length latLngs)))
                 (Num (sum_list (map lng latLngs) / real (length latLngs))) = Inr c
    \<longrightarrow> handleCreated forward toFixed k uuid now l latLngs s =
          Inr (s\<lparr> aois := aois s @
                 [\<lparr> aoi_id = uuid, mgrsCoordinate = c,
                    dimensions = toFixed (calculatePolygonArea k latLngs) 2 @ '' sq m'',
                    bounds = map (\<lambda>latlng. (lng latlng, lat latlng)) latLngs,
                    name = ''AOI '' @ toString_nat (length (aois s) + 1),
                    dateCreated = now, layer = Some l \<rparr>] \<rparr>))
   \<and> (map_forward forward rectangle = Inr ms' \<and> forward (Num 45.5) (Num (-99.5)) = Inr c'
        \<and> 110000 \<le> k \<and> k \<le> 112000
    \<longrightarrow> handleCreated forward toFixed k uuid now l rectangle s =
          Inr (s\<lparr> aois := aois s @
                 [\<lparr> aoi_id = uuid, mgrsCoordinate = c',
                    dimensions = toFixed (calculatePolygonArea k rectangle) 2 @ '' sq m'',
                    bounds = map (\<lambda>latlng. (lng latlng, lat latlng)) rectangle,
                    name = ''AOI '' @ toString_nat (length (aois s) + 1),
                    dateCreated = now, layer = Some l \<rparr>] \<rparr>)
        \<and> 5 * 10 ^ 9 < calculatePolygonArea k rectangle
        \<and> calculatePolygonArea k rectangle < 2 * 10 ^ 10)"
proof (intro conjI impI)
  assume "handleCreated forward toFixed k uuid now l latLngs s = Inr s' \<and> latLngs \<noteq> []"
  then show "forward (Num (sum_list (map lat latLngs) / real (length latLngs)))
                (Num (sum_list (map lng latLngs) / real (length latLngs)))
          = Inr (mgrsCoordinate (last (aois s')))"
    using handleCreated_created by blast
next
  assume "latLngs \<noteq> [] \<and> map_forward forward latLngs = Inr ms
      \<and> forward (Num (sum_list (map lat latLngs) / real (length latLngs)))
                 (Num (sum_list (map lng latLngs) / real (length latLngs))) = Inr c"
  then show "handleCreated forward toFixed k uuid now l latLngs s =
          Inr (s\<lparr> aois := aois s @
                 [\<lparr> aoi_id = uuid, mgrsCoordinate = c,
                    dimensions = toFixed (calculatePolygonArea k latLngs) 2 @ '' sq m'',
                    bounds = map (\<lambda>latlng. (lng latlng, lat latlng)) latLngs,
                    name = ''AOI '' @ toString_nat (length (aois s) + 1),
                    dateCreated = now, layer = Some l \<rparr>] \<rparr>)"
    by (intro handleCreated_appends [where ms = ms]) simp_all
next
  assume h: "map_forward forward rectangle = Inr ms' \<and> forward (Num 45.5) (Num (-99.5)) = Inr c'
        \<and> 110000 \<le> k \<and> k \<le> 112000"
  have ne: "rectangle \<noteq> []" by (simp add: rectangle_def)
  have m1: "sum_list (map lat rectangle) / real (length rectangle) = 45.5"
    by (simp add: rectangle_def)
  have m2: "sum_list (map lng rectangle) / real (length rectangle) = -99.5"
    by (simp add: rectangle_def)
  show "handleCreated forward toFixed k uuid now l rectangle s =
     Inr (s\<lparr> aois := aois s @
            [\<lparr> aoi_id = uuid, mgrsCoordinate = c',
               dimensions = toFixed (calculatePolygonArea k rectangle) 2 @ '' sq m'',
               bounds = map (\<lambda>latlng. (lng latlng, lat latlng)) rectangle,
               name = ''AOI '' @ toString_nat (length (aois s) + 1),
               dateCreated = now, layer = Some l \<rparr>] \<rparr>)"
  proof (rule handleCreated_appends [OF ne])
    show "map_forward forward rectangle = Inr ms'" using h by simp
    show "forward (Num (sum_list (map lat rectangle) / real (length rectangle)))
                 (Num (sum_list (map lng rectangle) / real (length rectangle))) = Inr c'"
      unfolding m1 m2 using h by simp
  qed
next
  assume "map_forward forward rectangle = Inr ms' \<and> forward (Num 45.5) (Num (-99.5)) = Inr c'
        \<and> 110000 \<le> k \<and> k \<le> 112000"
  then show "5 * 10 ^ 9 < calculatePolygonArea k rectangle"
    using area_magnitude(1) [of k] by simp
next
  assume "map_forward forward rectangle = Inr ms' \<and> forward (Num 45.5) (Num (-99.5)) = Inr c'
        \<and> 110000 \<le> k \<and> k \<le> 112000"
  then show "calculatePolygonArea k rectangle < 2 * 10 ^ 10"
    using area_magnitude(2) [of k] by simp
qed

text \<open>
  C1, at the rectangle, with the stand-in for \<^verbatim>\<open>mgrs.forward\<close> and 111320 metres in a
  degree: every hypothesis holds there, and so do the conclusions.
\<close>

theorem handleCreated_centroid_witness:
  "rectangle \<noteq> []
   \<and> map_forward stub_forward rectangle = Inr [''14TMK'', ''14TMK'', ''14TMK'', ''14TMK'']
   \<and> stub_forward (Num (sum_list (map lat rectangle) / real (length rectangle)))
                   (Num (sum_list (map lng rectangle) / real (length rectangle))) = Inr ''14TMK''
   \<and> stub_forward (Num 45.5) (Num (-99.5)) = Inr ''14TMK''
   \<and> (110000::real) \<le> 111320 \<and> (111320::real) \<le> 112000
   \<and> handleCreated stub_forward (\<lambda>x d. ''?'') 111320 ''u1'' ''t1'' 0 rectangle initial_state
       = Inr (initial_state\<lparr> aois := aois initial_state @
                 [\<lparr> aoi_id = ''u1'', mgrsCoordinate = ''14TMK'',
                    dimensions = ''?'' @ '' sq m'',
                    bounds = map (\<lambda>latlng. (lng latlng, lat latlng)) rectangle,
                    name = ''AOI '' @ toString_nat (length (aois initial_state) + 1),
                    dateCreated = ''t1'', layer = Some 0 \<rparr>] \<rparr>)
   \<and> 5 * 10 ^ 9 < calculatePolygonArea 111320 rectangle
   \<and> calculatePolygonArea 111320 rectangle < 2 * 10 ^ 10"
proof -
  let ?ms = "[''14TMK'', ''14TMK'', ''14TMK'', ''14TMK'']"
  let ?r = "initial_state\<lparr> aois := aois initial_state @
                 [\<lparr> aoi_id = ''u1'', mgrsCoordinate = ''14TMK'',
                    dimensions = ''?'' @ '' sq m'',
                    bounds = map (\<lambda>latlng. (lng latlng, lat latlng)) rectangle,
                    name = ''AOI '' @ toString_nat (length (aois initial_state) + 1),
                    dateCreated = ''t1'', layer = Some 0 \<rparr>] \<rparr>"
  have a: "rectangle \<noteq> []" by (simp add: rectangle_def)
  have b: "map_forward stub_forward rectangle = Inr ?ms"
    by (simp add: rectangle_def stub_forward_def)
  have c: "stub_forward (Num (sum_list (map lat rectangle) / real (length rectangle)))
                   (Num (sum_list (map lng rectangle) / real (length rectangle))) = Inr ''14TMK''"
    by (simp add: stub_forward_def)
  have d: "stub_forward (Num 45.5) (Num (-99.5)) = Inr ''14TMK''"
    by (simp add: stub_forward_def)
  have k: "(110000::real) \<le> 111320" "(111320::real) \<le> 112000" by simp_all
  note th = handleCreated_centroid [of stub_forward "\<lambda>x d. ''?''" 111320 "''u1''" "''t1''" 0
      rectangle initial_state ?r ?ms "''14TMK''" ?ms "''14TMK''"]
  from th have "map_forward stub_forward rectangle = Inr ?ms
      \<and> stub_forward (Num 45.5) (Num (-99.5)) = Inr ''14TMK''
      \<and> (110000::real) \<le> 111320 \<and> (111320::real) \<le> 112000
    \<longrightarrow> handleCreated stub_forward (\<lambda>x d. ''?'') 111320 ''u1'' ''t1'' 0 rectangle initial_state
          = Inr ?r
        \<and> 5 * 10 ^ 9 < calculatePolygonArea 111320 rectangle
        \<and> calculatePolygonArea 111320 rectangle < 2 * 10 ^ 10"
    by (elim conjE)
  with b d k have e: "handleCreated stub_forward (\<lambda>x d. ''?'') 111320 ''u1'' ''t1'' 0 rectangle
        initial_state = Inr ?r
        \<and> 5 * 10 ^ 9 < calculatePolygonArea 111320 rectangle
        \<and> calculatePolygonArea 111320 rectangle < 2 * 10 ^ 10"
    by blast
  from a b c d k e show ?thesis by blast
qed

section \<open>GeoJSON round trip (C2)\<close>

text \<open>
  C2, as the claim states it, fails: an AOI with four vertices and the empty name comes
  back from \<^verbatim>\<open>aoiToGeoJSON\<close> and \<^verbatim>\<open>geoJSONToAOI\<close> with the name "Imported AOI".
\<close>

theorem roundtrip_empty_name_counterexample:
  "3 \<le> length (bounds unnamed_aoi)
   \<and> geoJSONToAOI ''u'' ''t'' (aoiToGeoJSON unnamed_aoi)
       = Inr (unnamed_aoi\<lparr>name := ''Imported AOI'', layer := None\<rparr>)
   \<and> name (unnamed_aoi\<lparr>name := ''Imported AOI'', layer := None\<rparr>) \<noteq> name unnamed_aoi"
  by (simp add: geoJSONToAOI_def aoiToGeoJSON_def prop_or_def swap_coord_def unnamed_aoi_def
      example_aoi_def)

text \<open>
  C2, amended. For every AOI whose bounds has at least 3 vertices, \<^verbatim>\<open>aoiToGeoJSON\<close> then
  \<^verbatim>\<open>geoJSONToAOI\<close> returns an AOI with the same vertex sequence, \<open>mgrsCoordinate\<close> and
  \<open>dimensions\<close>; \<open>id\<close>, \<open>name\<close> and \<open>dateCreated\<close> are the same when they are not the
  empty string, and an empty one is replaced by the fresh id, by "Imported AOI" and by
  the current time; the layer is dropped.
\<close>

theorem aoiToGeoJSON_geoJSONToAOI_roundtrip:
  "3 \<le> length (bounds a) \<Longrightarrow>
   geoJSONToAOI uuid now (aoiToGeoJSON a) =
     Inr (a\<lparr> aoi_id := (if aoi_id a = [] then uuid else aoi_id a),
             name := (if name a = [] then ''Imported AOI'' else name a),
             dateCreated := (if dateCreated a = [] then now else dateCreated a),
             layer := None \<rparr>)"
  by (cases a) (simp add: geoJSONToAOI_def aoiToGeoJSON_def prop_or_def swap_coord_def comp_def)

text \<open>C2, amended, at an AOI with four vertices and non-empty strings.\<close>

theorem aoiToGeoJSON_geoJSONToAOI_roundtrip_witness:
  "3 \<le> length (bounds example_aoi)
   \<and> geoJSONToAOI ''u'' ''t'' (aoiToGeoJSON example_aoi) = Inr (example_aoi\<lparr>layer := None\<rparr>)"
  using aoiToGeoJSON_geoJSONToAOI_roundtrip [of example_aoi "''u''" "''t''"]
  by (simp add: example_aoi_def)

section \<open>Import of a FeatureCollection (C3)\<close>

lemma map_geoJSONToAOI_polygons:
  "list_all isPolygon fs \<Longrightarrow> list_all hasRing fs \<Longrightarrow>
   \<exists>as. map_geoJSONToAOI rnd clk k fs = Inr as \<and> length as = length fs"
proof (induction fs arbitrary: k)
  case Nil
  then show ?case by simp
next
  case (Cons f fs)
  from Cons.prems obtain ring rings where g: "geometry f = Some (Polygon (ring # rings))"
    by (auto simp: isPolygon_def hasRing_def split: option.splits geometry.splits list.splits)
  then obtain a where a: "geoJSONToAOI (rnd k) (clk k) f = Inr a"
    by (simp add: geoJSONToAOI_def)
  from Cons.IH [of "Suc k"] Cons.prems obtain as
    where "map_geoJSONToAOI rnd clk (Suc k) fs = Inr as" "length as = length fs"
    by auto
  with a show ?case by simp
qed

text \<open>
  \<^verbatim>\<open>importGeoJSON\<close> does what C3 says, for a collection whose Polygon features have a
  first ring: the other features are skipped, each Polygon feature gives one AOI, and
  the import fails exactly when no Polygon feature remains.
\<close>

lemma importGeoJSON_skips_other_geometries:
  assumes "JSON_parse fileContent = Inr d"
    and "doc_type d = Some ''FeatureCollection''"
    and "doc_features d = Some fs"
    and "list_all hasRing fs"
  shows "(filter isPolygon fs = [] \<longrightarrow> isl (importGeoJSON JSON_parse rnd clk fileContent))
       \<and> (filter isPolygon fs \<noteq> [] \<longrightarrow>
            (\<exists>as. importGeoJSON JSON_parse rnd clk fileContent = Inr as
                 \<and> length as = length (filter isPolygon fs)))"
proof -
  have p: "list_all isPolygon (filter isPolygon fs)" by (simp add: list_all_iff)
  have r: "list_all hasRing (filter isPolygon fs)" using assms(4) by (simp add: list_all_iff)
  from map_geoJSONToAOI_polygons [OF p r, of rnd clk 0] obtain as
    where as: "map_geoJSONToAOI rnd clk 0 (filter isPolygon fs) = Inr as"
      "length as = length (filter isPolygon fs)" by auto
  show ?thesis
    using assms(1-3) as
    by (auto simp: importGeoJSON_def import_features_def)
qed

text \<open>
  C3. \<^verbatim>\<open>handleImport\<close>, which the Import button runs, does not skip: on the
  FeatureCollection of the spec's scenario (one Polygon feature, one Point feature) it
  shows the alert and appends no AOI, where \<^verbatim>\<open>importGeoJSON\<close> returns the one AOI of
  the Polygon feature.
\<close>

theorem handleImport_mixed_collection:
  "handleImport (\<lambda>c. Inr mixed_collection) rnd clk (Some fileContent) s
     = s\<lparr>alerts := alerts s @ [''Invalid GeoJSON file'']\<rparr>
   \<and> aois (handleImport (\<lambda>c. Inr mixed_collection) rnd clk (Some fileContent) s) = aois s
   \<and> importGeoJSON (\<lambda>c. Inr mixed_collection) rnd clk fileContent
     = Inr [\<lparr> aoi_id = rnd 0, mgrsCoordinate = [], dimensions = [],
               bounds = [(45, -99), (46, -99), (46, -98), (45, -98), (45, -99)],
               name = ''Imported AOI'', dateCreated = clk 0, layer = None \<rparr>]"
  by (simp add: handleImport_def handleImport_try_def importGeoJSON_def import_features_def
      mixed_collection_def geoJSONToAOI_def polygon_feature_def point_feature_def isPolygon_def
      prop_or_def no_properties_def swap_coord_def scenario_ring_def)

section \<open>Identifiers (C4)\<close>

text \<open>
  Deleting keeps the ids distinct, and so does creating with an id that is not in the
  collection yet.
\<close>

lemma deleteAOI_distinct:
  "distinct (map aoi_id (aois s)) \<Longrightarrow> distinct (map aoi_id (aois (deleteAOI c i s)))"
  by (simp add: deleteAOI_def distinct_map_filter)

lemma handleCreated_distinct:
  "distinct (map aoi_id (aois s)) \<Longrightarrow> uuid \<notin> set (map aoi_id (aois s)) \<Longrightarrow>
   handleCreated forward toFixed k uuid now l latLngs s = Inr s' \<Longrightarrow>
   distinct (map aoi_id (aois s'))"
  by (auto simp: handleCreated_def split: sum.splits)

lemma addAOI_distinct:
  "distinct (map aoi_id (aois s)) \<Longrightarrow> toString_nat nowMs \<notin> set (map aoi_id (aois s)) \<Longrightarrow>
   distinct (map aoi_id (aois (addAOI toPoint nowMs nowIso s)))"
  by (auto simp: addAOI_def split: sum.splits)

text \<open>
  C4. Two manual entries for which \<^verbatim>\<open>Date.now()\<close> reads the same millisecond get the
  same id: from the initial state, typing an MGRS string and adding it, twice, at the
  clock reading 1717200000000 leaves two AOIs whose ids are equal.
\<close>

theorem addAOI_same_millisecond_same_id:
  "map aoi_id (aois (addAOI stub_toPoint 1717200000000 ''t2'' (setMgrsInput ''14TMK''
      (addAOI stub_toPoint 1717200000000 ''t1'' (setMgrsInput ''14TMK'' initial_state)))))
     = [toString_nat 1717200000000, toString_nat 1717200000000]
   \<and> \<not> distinct (map aoi_id (aois (addAOI stub_toPoint 1717200000000 ''t2'' (setMgrsInput ''14TMK''
      (addAOI stub_toPoint 1717200000000 ''t1'' (setMgrsInput ''14TMK'' initial_state))))))"
  by (simp add: addAOI_def setMgrsInput_def initial_state_def stub_toPoint_def)

section \<open>Order of the coordinates in \<open>bounds\<close> (C5)\<close>

text \<open>The draw path stores each vertex with the longitude first.\<close>

lemma handleCreated_stores_lng_first:
  "handleCreated forward toFixed k uuid now l latLngs s = Inr s' \<Longrightarrow>
   bounds (last (aois s')) = map (\<lambda>v. (lng v, lat v)) latLngs"
  by (auto simp: handleCreated_def split: sum.splits)

text \<open>
  C5, as the claim states it, fails: the import of the Polygon feature whose ring is, in
  GeoJSON's (longitude, latitude) order, (-99,45), (-99,46), (-98,46), (-98,45), (-99,45)
  stores the vertices with the latitude first.
\<close>

theorem geoJSONToAOI_stores_lat_first_counterexample:
  "geoJSONToAOI ''u'' ''t'' polygon_feature
     = Inr \<lparr> aoi_id = ''u'', mgrsCoordinate = [], dimensions = [],
             bounds = [(45, -99), (46, -99), (46, -98), (45, -98), (45, -99)],
             name = ''Imported AOI'', dateCreated = ''t'', layer = None \<rparr>
   \<and> [(45, -99), (46, -99), (46, -98), (45, -98), (45, -99)] \<noteq> scenario_ring"
  by (simp add: geoJSONToAOI_def polygon_feature_def prop_or_def no_properties_def swap_coord_def
      scenario_ring_def)

text \<open>
  C5, amended. Every AOI made by manual MGRS entry or by GeoJSON import stores each
  vertex of \<open>bounds\<close> as a (latitude, longitude) pair: the manual entry stores the
  four corners \<open>(lat +- 0.01, lng +- 0.01)\<close> around the point \<open>[lng, lat]\<close> that
  \<^verbatim>\<open>mgrs.toPoint\<close> returns, and the import stores, for each position
  (longitude, latitude) of the first ring, the pair (latitude, longitude).
\<close>

theorem manual_and_import_store_lat_lon:
  "(mgrsInput s \<noteq> [] \<and> toPoint (mgrsInput s) = Inr (lon, la)
      \<longrightarrow> (\<exists>a. aois (addAOI toPoint nowMs nowIso s) = aois s @ [a]
               \<and> bounds a = [(la - 0.01, lon - 0.01), (la - 0.01, lon + 0.01),
                             (la + 0.01, lon + 0.01), (la + 0.01, lon - 0.01)]))
   \<and> (geometry f = Some (Polygon (ring # rings))
      \<longrightarrow> (\<exists>a. geoJSONToAOI uuid now f = Inr a
               \<and> map fst (bounds a) = map snd ring \<and> map snd (bounds a) = map fst ring))"
  by (auto simp: addAOI_def geoJSONToAOI_def swap_coord_def comp_def)

text \<open>C5, amended, at a manual entry and at the Polygon feature of the import scenario.\<close>

theorem manual_and_import_store_lat_lon_witness:
  "mgrsInput (setMgrsInput ''14TMK'' initial_state) \<noteq> []
   \<and> stub_toPoint (mgrsInput (setMgrsInput ''14TMK'' initial_state)) = Inr (-99.5, 45.5)
   \<and> (\<exists>a. aois (addAOI stub_toPoint 1717200000000 ''t1'' (setMgrsInput ''14TMK'' initial_state)) = [a]
        \<and> bounds a = [(45.49, -99.51), (45.49, -99.49), (45.51, -99.49), (45.51, -99.51)])
   \<and> geometry polygon_feature = Some (Polygon (scenario_ring # []))
   \<and> (\<exists>a. geoJSONToAOI ''u'' ''t'' polygon_feature = Inr a
        \<and> map fst (bounds a) = [45, 46, 46, 45, 45] \<and> map snd (bounds a) = [-99, -99, -98, -98, -99])"
  using manual_and_import_store_lat_lon [of "setMgrsInput ''14TMK'' initial_state" stub_toPoint
      "-99.5" "45.5" 1717200000000 "''t1''" polygon_feature scenario_ring "[]" "''u''" "''t''"]
  by (simp add: setMgrsInput_def initial_state_def stub_toPoint_def polygon_feature_def
      scenario_ring_def)


section \<open>Selection and deletion (C6)\<close>

text \<open>
  C6, as the claim states it, fails. Deleting the selected AOI, and deleting all AOIs,
  leave \<^verbatim>\<open>selectedAoiId\<close> as it was: neither handler calls \<^verbatim>\<open>setSelectedAoiId\<close>. And
  after the same exported collection was imported twice, a click on its entry selects two
  AOIs of the collection.
\<close>

theorem delete_keeps_selectedAoiId_counterexample:
  "selectedAoiId selected_state = Some ''a1''
   \<and> selectedAoiId (deleteAOI True ''a1'' selected_state) = Some ''a1''
   \<and> selectedAoiId (deleteAll True selected_state) = Some ''a1''
   \<and> length (selectedAois (panelClick (example_aoi\<lparr>layer := None\<rparr>)
        (handleImport (\<lambda>c. Inr exported_collection) (\<lambda>k. ''u'') (\<lambda>k. ''t'') (Some ''file'')
          (handleImport (\<lambda>c. Inr exported_collection) (\<lambda>k. ''u'') (\<lambda>k. ''t'') (Some ''file'')
             initial_state)))) = 2"
  by (simp add: selected_state_def initial_state_def deleteAOI_def deleteAll_def selectedAois_def
      panelClick_def handleImport_def handleImport_try_def exported_collection_def
      geoJSONToAOI_def aoiToGeoJSON_def prop_or_def example_aoi_def)

lemma length_filter_eq_le_1:
  "distinct (map f xs) \<Longrightarrow> length (filter (\<lambda>x. f x = y) xs) \<le> 1"
  by (induction xs) (auto simp: filter_empty_conv image_iff)

text \<open>
  C6, amended. After \<^verbatim>\<open>deleteAOI\<close> of the currently selected AOI and after the
  delete-all handler (both confirmed), no AOI of the collection is selected, since none
  carries the selected id, while \<^verbatim>\<open>selectedAoiId\<close> keeps its value; and in every state
  whose ids are pairwise distinct at most one AOI is selected.
\<close>

theorem delete_leaves_no_selected_aoi:
  "(selectedAoiId s = Some i \<longrightarrow>
      selectedAois (deleteAOI True i s) = [] \<and> selectedAoiId (deleteAOI True i s) = Some i)
   \<and> selectedAois (deleteAll True s) = []
   \<and> selectedAoiId (deleteAll True s) = selectedAoiId s
   \<and> (distinct (map aoi_id (aois s)) \<longrightarrow> length (selectedAois s) \<le> 1)"
proof -
  have "distinct (map aoi_id (aois s)) \<Longrightarrow> length (selectedAois s) \<le> 1"
  proof (cases "selectedAoiId s")
    case None
    then show ?thesis by (simp add: selectedAois_def)
  next
    case (Some j)
    assume "distinct (map aoi_id (aois s))"
    then show ?thesis
      using length_filter_eq_le_1 [of aoi_id "aois s" j] Some
      by (simp add: selectedAois_def)
  qed
  then show ?thesis
    by (auto simp: selectedAois_def deleteAOI_def deleteAll_def filter_empty_conv)
qed

text \<open>C6, amended, at a state with two AOIs of which the first is selected.\<close>

theorem delete_leaves_no_selected_aoi_witness:
  "selectedAoiId selected_state = Some ''a1''
   \<and> selectedAois (deleteAOI True ''a1'' selected_state) = []
   \<and> selectedAois (deleteAll True selected_state) = []
   \<and> distinct (map aoi_id (aois selected_state))
   \<and> length (selectedAois selected_state) \<le> 1"
  using delete_leaves_no_selected_aoi [of selected_state "''a1''"]
  by (simp add: selected_state_def initial_state_def example_aoi_def second_aoi_def)

section \<open>Renaming (C7)\<close>

lemma trim_examples:
  "trim ''West'' = ''West''" "trim ''North'' = ''North''" "trim ''  North '' = ''North''"
  "trim [CHR 0xC2, CHR 0xA0, CHR 0x20] = []"
  by code_simp+

lemma aois_imported_state: "aois imported_state = [example_aoi\<lparr>layer := None\<rparr>]"
  by (simp add: imported_state_def initial_state_def handleImport_def handleImport_try_def
      exported_collection_def geoJSONToAOI_def aoiToGeoJSON_def prop_or_def example_aoi_def
      swap_coord_def)

lemma aois_reimported_state:
  "aois reimported_state
     = [example_aoi\<lparr>name := ''West'', layer := None\<rparr>, example_aoi\<lparr>layer := None\<rparr>]"
proof -
  have "aois (saveEdit (setEditingName ''West'' (startEditing (aois imported_state ! 0) imported_state)))
          = [example_aoi\<lparr>name := ''West'', layer := None\<rparr>]"
    by (simp add: saveEdit_def setEditingName_def startEditing_def aois_imported_state
        trim_examples example_aoi_def)
  then show ?thesis
    by (simp add: reimported_state_def handleImport_def handleImport_try_def
        exported_collection_def geoJSONToAOI_def aoiToGeoJSON_def prop_or_def example_aoi_def
        swap_coord_def)
qed

text \<open>
  C7, as the claim states it, fails. After the same exported collection was imported
  twice, with a rename in between, the collection holds the AOIs "West" and "AOI 1" with
  one id; renaming the first to "North" also renames the second, another AOI of the
  collection. And \<^verbatim>\<open>if (!editingId) return\<close> also returns when \<^verbatim>\<open>editingId\<close> is the
  empty string, an id that no creation path assigns and only stored data can carry: the
  AOI with the empty id keeps its name "AOI 1" although the candidate "North" does not
  trim to the empty string.
\<close>

theorem saveEdit_renames_twin_counterexample:
  "aois reimported_state
     = [example_aoi\<lparr>name := ''West'', layer := None\<rparr>, example_aoi\<lparr>layer := None\<rparr>]
   \<and> aois (saveEdit (setEditingName ''North''
              (startEditing (aois reimported_state ! 0) reimported_state)))
       = [example_aoi\<lparr>name := ''North'', layer := None\<rparr>,
          example_aoi\<lparr>name := ''North'', layer := None\<rparr>]
   \<and> name (example_aoi\<lparr>layer := None\<rparr>) = ''AOI 1''
   \<and> aois (saveEdit (setEditingName ''North''
              (startEditing (example_aoi\<lparr>aoi_id := []\<rparr>)
                 (initial_state\<lparr>aois := [example_aoi\<lparr>aoi_id := []\<rparr>]\<rparr>))))
       = [example_aoi\<lparr>aoi_id := []\<rparr>]
   \<and> trim ''North'' = ''North''
   \<and> name (example_aoi\<lparr>aoi_id := []\<rparr>) = ''AOI 1''"
proof -
  have twin: "aois (saveEdit (setEditingName ''North''
              (startEditing (aois reimported_state ! 0) reimported_state)))
       = [example_aoi\<lparr>name := ''North'', layer := None\<rparr>,
          example_aoi\<lparr>name := ''North'', layer := None\<rparr>]"
    by (simp add: saveEdit_def setEditingName_def startEditing_def aois_reimported_state
        trim_examples example_aoi_def)
  have empty: "aois (saveEdit (setEditingName ''North''
              (startEditing (example_aoi\<lparr>aoi_id := []\<rparr>)
                 (initial_state\<lparr>aois := [example_aoi\<lparr>aoi_id := []\<rparr>]\<rparr>))))
       = [example_aoi\<lparr>aoi_id := []\<rparr>]"
    by (simp add: saveEdit_def setEditingName_def startEditing_def initial_state_def
        example_aoi_def)
  have names: "name (example_aoi\<lparr>layer := None\<rparr>) = ''AOI 1''"
    "name (example_aoi\<lparr>aoi_id := []\<rparr>) = ''AOI 1''"
    by (simp_all add: example_aoi_def)
  show ?thesis
    using aois_reimported_state twin empty names trim_examples(2) by simp
qed

text \<open>
  C7, amended. For every AOI id that is not the empty string and every candidate new
  name, \<^verbatim>\<open>saveEdit\<close> leaves the name of every AOI with that id unchanged when the
  candidate trims to the empty string, and otherwise sets it to the trimmed candidate;
  no other field of those AOIs and no AOI with another id is modified, and the
  collection keeps its length and order. For the empty id \<^verbatim>\<open>saveEdit\<close> changes nothing.
\<close>

theorem saveEdit_renames_only_that_aoi:
  "editingId s = Some i \<Longrightarrow>
   length (aois (saveEdit s)) = length (aois s)
   \<and> (\<forall>k < length (aois s).
        (i \<noteq> [] \<and> aoi_id (aois s ! k) = i \<longrightarrow>
           aois (saveEdit s) ! k =
             (aois s ! k)\<lparr>name := (if trim (editingName s) = [] then name (aois s ! k)
                                    else trim (editingName s))\<rparr>)
      \<and> (aoi_id (aois s ! k) \<noteq> i \<longrightarrow> aois (saveEdit s) ! k = aois s ! k))
   \<and> (i = [] \<longrightarrow> saveEdit s = s)"
  by (simp add: saveEdit_def)

text \<open>
  C7, amended, at a collection of two AOIs with different ids: renaming the first to
  "  North " sets its name to "North" and leaves the second as it was; the candidate
  made of a no-break space and a space leaves the name of the first as it was; and
  with the empty id nothing changes.
\<close>

theorem saveEdit_renames_only_that_aoi_witness:
  "editingId (setEditingName ''  North '' (startEditing example_aoi selected_state)) = Some ''a1''
   \<and> ''a1'' \<noteq> []
   \<and> aois (saveEdit (setEditingName ''  North '' (startEditing example_aoi selected_state))) ! 0
       = example_aoi\<lparr>name := ''North''\<rparr>
   \<and> aois (saveEdit (setEditingName ''  North '' (startEditing example_aoi selected_state))) ! 1
       = second_aoi
   \<and> aois (saveEdit (setEditingName [CHR 0xC2, CHR 0xA0, CHR 0x20]
              (startEditing example_aoi selected_state))) ! 0
       = example_aoi
   \<and> editingId (setEditingName ''North'' (startEditing (example_aoi\<lparr>aoi_id := []\<rparr>)
        (initial_state\<lparr>aois := [example_aoi\<lparr>aoi_id := []\<rparr>]\<rparr>))) = Some []
   \<and> saveEdit (setEditingName ''North'' (startEditing (example_aoi\<lparr>aoi_id := []\<rparr>)
        (initial_state\<lparr>aois := [example_aoi\<lparr>aoi_id := []\<rparr>]\<rparr>)))
       = setEditingName ''North'' (startEditing (example_aoi\<lparr>aoi_id := []\<rparr>)
        (initial_state\<lparr>aois := [example_aoi\<lparr>aoi_id := []\<rparr>]\<rparr>))"
proof -
  let ?s = "setEditingName ''  North '' (startEditing example_aoi selected_state)"
  let ?b = "setEditingName [CHR 0xC2, CHR 0xA0, CHR 0x20] (startEditing example_aoi selected_state)"
  let ?z = "setEditingName ''North'' (startEditing (example_aoi\<lparr>aoi_id := []\<rparr>)
        (initial_state\<lparr>aois := [example_aoi\<lparr>aoi_id := []\<rparr>]\<rparr>))"
  have e: "editingId ?s = Some ''a1''" "editingId ?b = Some ''a1''"
    by (simp_all add: setEditingName_def startEditing_def example_aoi_def)
  have z: "editingId ?z = Some []"
    by (simp add: setEditingName_def startEditing_def)
  have ne: "''a1'' \<noteq> []" by simp
  have l: "aois ?s = [example_aoi, second_aoi]" "aois ?b = [example_aoi, second_aoi]"
    by (simp_all add: setEditingName_def startEditing_def selected_state_def)
  have n: "editingName ?s = ''  North ''" "editingName ?b = [CHR 0xC2, CHR 0xA0, CHR 0x20]"
    by (simp_all add: setEditingName_def startEditing_def)
  have i: "aoi_id example_aoi = ''a1''" "aoi_id second_aoi \<noteq> ''a1''"
    by (simp_all add: example_aoi_def second_aoi_def)
  note th = saveEdit_renames_only_that_aoi [OF e(1), THEN conjunct2, THEN conjunct1, rule_format]
  note tb = saveEdit_renames_only_that_aoi [OF e(2), THEN conjunct2, THEN conjunct1, rule_format]
  note tz = saveEdit_renames_only_that_aoi [OF z, THEN conjunct2, THEN conjunct2, rule_format]
  have k0: "aois (saveEdit ?s) ! 0 = example_aoi\<lparr>name := ''North''\<rparr>"
    using th [of 0] by (simp add: l n trim_examples i)
  have k1: "aois (saveEdit ?s) ! 1 = second_aoi"
    using th [of 1] by (simp add: l n trim_examples i)
  have b0: "aois (saveEdit ?b) ! 0 = example_aoi"
    using tb [of 0] by (simp add: l n trim_examples i)
  have z0: "saveEdit ?z = ?z"
    using tz by simp
  from e(1) ne k0 k1 b0 z z0 show ?thesis by blast
qed

section \<open>Boundary edit (C8)\<close>





section \<open>Loading from storage (C9)\<close>

text \<open>
  C9. \<^verbatim>\<open>storage.load\<close> never raises: it always returns a collection. It returns the
  empty collection when the key is absent, and when the stored payload is there but
  \<^verbatim>\<open>JSON.parse\<close> throws on it.
\<close>

theorem storage_load_total_and_empty:
  "(\<exists>v. storage_load w g p = Inr v)
   \<and> (g = Inr None \<longrightarrow> storage_load w g p = Inr [])
   \<and> (g = Inr (Some d) \<and> p d = Inl e \<longrightarrow> storage_load w g p = Inr [])"
  by (auto simp: storage_load_def load_try_def split: sum.splits option.splits)

text \<open>C9, at an absent key and at a payload on which the parser throws.\<close>

theorem storage_load_total_and_empty_witness:
  "(Inr None :: error + string option) = Inr None
   \<and> storage_load True (Inr None) (\<lambda>s. Inl SyntaxError) = Inr []
   \<and> (Inr (Some ''{oops'') :: error + string option) = Inr (Some ''{oops'')
   \<and> (\<lambda>s. Inl SyntaxError :: error + AOI list) ''{oops'' = Inl SyntaxError
   \<and> storage_load True (Inr (Some ''{oops'')) (\<lambda>s. Inl SyntaxError) = Inr []"
  using storage_load_total_and_empty [of True "Inr None" "\<lambda>s. Inl SyntaxError" "''{oops''" SyntaxError]
        storage_load_total_and_empty [of True "Inr (Some ''{oops'')" "\<lambda>s. Inl SyntaxError" "''{oops''" SyntaxError]
  by simp

section \<open>Falsy properties on import (C10)\<close>

text \<open>
  C10. \<^verbatim>\<open>geoJSONToAOI\<close> treats a falsy property as a missing one: for a Polygon feature
  (with a first ring), an \<open>id\<close> that is the empty string or absent gives the freshly
  generated id, a \<open>name\<close> that is the empty string or absent gives "Imported AOI", and
  a \<open>dateCreated\<close> that is the empty string or absent gives the current time.
\<close>

theorem geoJSONToAOI_falsy_properties:
  "geometry f = Some (Polygon (ring # rings)) \<Longrightarrow> properties f = Some p \<Longrightarrow>
   \<exists>a. geoJSONToAOI uuid now f = Inr a
     \<and> (prop_id p = Some [] \<or> prop_id p = None \<longrightarrow> aoi_id a = uuid)
     \<and> (prop_name p = Some [] \<or> prop_name p = None \<longrightarrow> name a = ''Imported AOI'')
     \<and> (prop_dateCreated p = Some [] \<or> prop_dateCreated p = None \<longrightarrow> dateCreated a = now)"
  by (auto simp: geoJSONToAOI_def prop_or_def)

text \<open>
  C10, at a Polygon feature whose \<open>id\<close>, \<open>name\<close> and \<open>dateCreated\<close> are the empty
  string.
\<close>

theorem geoJSONToAOI_falsy_properties_witness:
  "geometry blank_feature = Some (Polygon (scenario_ring # []))
   \<and> properties blank_feature = Some blank_properties
   \<and> prop_id blank_properties = Some [] \<and> prop_name blank_properties = Some []
   \<and> prop_dateCreated blank_properties = Some []
   \<and> (\<exists>a. geoJSONToAOI ''u'' ''t'' blank_feature = Inr a
        \<and> aoi_id a = ''u'' \<and> name a = ''Imported AOI'' \<and> dateCreated a = ''t'')"
  using geoJSONToAOI_falsy_properties [of blank_feature scenario_ring "[]" blank_properties
      "''u''" "''t''"]
  by (simp add: blank_feature_def blank_properties_def)

end
